theory Spec2Isabelle
  imports Main "HOL-Library.Sublist" "HOL-Library.AList"
begin

section \<open>Rate limit handler (class RateLimitHandler)\<close>

text \<open>
  The handler keeps two dictionaries keyed by endpoint and one backoff multiplier.
  JavaScript numbers are modelled as exact integers: request counts are naturals, times are
  milliseconds as returned by \<open>Date.now()\<close>. The clock is an argument of every operation
  that reads it.
\<close>

record RateLimitHandler =
  requestCounts :: "string \<rightharpoonup> nat"
  resetTimes :: "string \<rightharpoonup> int"
  backoffMultiplier :: int

definition newRateLimitHandler :: RateLimitHandler where
  "newRateLimitHandler =
     \<lparr>requestCounts = Map.empty, resetTimes = Map.empty, backoffMultiplier = 1\<rparr>"

text \<open>\<open>String.prototype.includes\<close>: the pattern occurs as a contiguous substring.\<close>

fun str_includes :: "string \<Rightarrow> string \<Rightarrow> bool" where
  "str_includes [] pat = (pat = [])"
| "str_includes (c # cs) pat = (prefix pat (c # cs) \<or> str_includes cs pat)"

definition getRateLimit :: "string \<Rightarrow> nat" where
  "getRateLimit endpoint =
     (if str_includes endpoint ''/messages'' then 30
      else if str_includes endpoint ''/sessions'' then 10
      else if str_includes endpoint ''/compile'' then 5
      else 50)"

text \<open>\<open>map.get(key) || 0\<close>: a missing entry (and a stored zero) reads as zero.\<close>

definition countOf :: "RateLimitHandler \<Rightarrow> string \<Rightarrow> nat" where
  "countOf s endpoint = (case requestCounts s endpoint of None \<Rightarrow> 0 | Some c \<Rightarrow> c)"

definition resetTimeOf :: "RateLimitHandler \<Rightarrow> string \<Rightarrow> int" where
  "resetTimeOf s endpoint = (case resetTimes s endpoint of None \<Rightarrow> 0 | Some t \<Rightarrow> t)"

text \<open>
  \<open>shouldThrottle\<close> reads the clock, opens a fresh one-minute window when the stored
  reset time has passed (strictly), and then compares the count with the limit. It returns
  the answer together with the updated handler.
\<close>

definition shouldThrottle :: "int \<Rightarrow> string \<Rightarrow> RateLimitHandler \<Rightarrow> bool \<times> RateLimitHandler" where
  "shouldThrottle now endpoint s =
     (let resetTime = resetTimeOf s endpoint;
          s1 = (if now > resetTime
                then s\<lparr>requestCounts := (requestCounts s)(endpoint \<mapsto> 0),
                       resetTimes := (resetTimes s)(endpoint \<mapsto> now + 60000)\<rparr>
                else s);
          count = countOf s1 endpoint;
          limit = getRateLimit endpoint
      in (count \<ge> limit, s1))"

text \<open>\<open>recordRequest\<close> reads no clock: it stores the count plus one.\<close>

definition recordRequest :: "string \<Rightarrow> RateLimitHandler \<Rightarrow> RateLimitHandler" where
  "recordRequest endpoint s =
     (let count = countOf s endpoint
      in s\<lparr>requestCounts := (requestCounts s)(endpoint \<mapsto> count + 1)\<rparr>)"

text \<open>
  The specification's wording of \<open>recordRequest\<close>, for comparison with the source: the same
  reset-if-expired check as \<open>shouldThrottle\<close>, then the increment.
\<close>

definition recordRequest_spec :: "int \<Rightarrow> string \<Rightarrow> RateLimitHandler \<Rightarrow> RateLimitHandler" where
  "recordRequest_spec now endpoint s = recordRequest endpoint (snd (shouldThrottle now endpoint s))"

subsection \<open>The global function parseInt\<close>

text \<open>
  \<open>parseInt(string)\<close> without a radix, after ECMAScript: leading white space is dropped,
  one sign is read, a \<open>0x\<close>/\<open>0X\<close> prefix selects radix 16 (radix 10 otherwise), and the
  longest prefix of digits is converted; no digit at all gives \<open>NaN\<close>, here \<open>None\<close>.
  Strings are byte strings, so the white space is the ASCII white space, and the result is
  the exact integer (a double agrees with it below \<open>2 ^ 53\<close>).
\<close>

definition isWhiteSpace :: "char \<Rightarrow> bool" where
  "isWhiteSpace c = (c \<in> set [CHR '' '', CHR 0x09, CHR 0x0A, CHR 0x0B, CHR 0x0C, CHR 0x0D])"

definition digitValue :: "char \<Rightarrow> nat option" where
  "digitValue c =
     (let n = (of_char c :: nat) in
      if 48 \<le> n \<and> n \<le> 57 then Some (n - 48)
      else if 97 \<le> n \<and> n \<le> 122 then Some (n - 87)
      else if 65 \<le> n \<and> n \<le> 90 then Some (n - 55)
      else None)"

fun radixDigits :: "nat \<Rightarrow> string \<Rightarrow> nat list" where
  "radixDigits R [] = []"
| "radixDigits R (c # cs) =
     (case digitValue c of
        None \<Rightarrow> []
      | Some d \<Rightarrow> if d < R then d # radixDigits R cs else [])"

definition mathInt :: "nat \<Rightarrow> nat list \<Rightarrow> nat" where
  "mathInt R ds = foldl (\<lambda>acc d. acc * R + d) 0 ds"

definition parseInt :: "string \<Rightarrow> int option" where
  "parseInt str =
     (let S = dropWhile isWhiteSpace str;
          sign = (if prefix ''-'' S then - 1 else 1 :: int);
          S1 = (if prefix ''+'' S \<or> prefix ''-'' S then tl S else S);
          hex = (prefix ''0x'' S1 \<or> prefix ''0X'' S1);
          R = (if hex then 16 else 10);
          S2 = (if hex then drop 2 S1 else S1);
          Z = radixDigits R S2
      in if Z = [] then None else Some (sign * int (mathInt R Z)))"

subsection \<open>handleRateLimitResponse\<close>

text \<open>
  The response is read through \<open>response.headers.get\<close> for two header names; a missing
  header is \<open>None\<close>. A header counts as present when it is truthy, that is a non-empty
  string; \<open>truthy\<close> returns the header's text in that case.
\<close>

record response =
  retryAfter :: "string option"
  xRateLimitReset :: "string option"

definition truthy :: "string option \<Rightarrow> string option" where
  "truthy h = (case h of None \<Rightarrow> None | Some v \<Rightarrow> if v = [] then None else Some v)"

text \<open>
  The wait before the multiplier is applied: the default of one minute, replaced by the
  retry-after seconds when that header is present, else by the distance from the clock to
  the reset timestamp when that one is. \<open>None\<close> is \<open>NaN\<close>, which every later arithmetic
  step keeps.
\<close>

definition waitTimeOf :: "response \<Rightarrow> int \<Rightarrow> int option" where
  "waitTimeOf r now =
     (case truthy (retryAfter r) of
        Some v \<Rightarrow> map_option (\<lambda>n. n * 1000) (parseInt v)
      | None \<Rightarrow>
          (case truthy (xRateLimitReset r) of
             Some x \<Rightarrow> map_option (\<lambda>n. n - now) (parseInt x)
           | None \<Rightarrow> Some 60000))"

text \<open>
  \<open>handleRateLimitResponse\<close> is asynchronous. Up to its \<open>await\<close> it computes the wait,
  scales it by the multiplier and doubles the multiplier with ceiling 8; this part returns
  the duration handed to \<open>setTimeout\<close>. When the timer fires the call resumes and stores
  multiplier 1. Other calls may run between the two parts.
\<close>

definition handleRateLimitResponse_wait ::
    "response \<Rightarrow> int \<Rightarrow> RateLimitHandler \<Rightarrow> int option \<times> RateLimitHandler" where
  "handleRateLimitResponse_wait r now s =
     (let waitTime = map_option (\<lambda>w. w * backoffMultiplier s) (waitTimeOf r now)
      in (waitTime, s\<lparr>backoffMultiplier := min (backoffMultiplier s * 2) 8\<rparr>))"

definition handleRateLimitResponse_resume :: "RateLimitHandler \<Rightarrow> RateLimitHandler" where
  "handleRateLimitResponse_resume s = s\<lparr>backoffMultiplier := 1\<rparr>"

text \<open>The multipliers a handler can hold: 1 at construction, then doubled up to 8.\<close>

definition backoff_ok :: "RateLimitHandler \<Rightarrow> bool" where
  "backoff_ok s = (backoffMultiplier s \<in> {1, 2, 4, 8})"

text \<open>
  Calls started one after the other, none of their timers having fired yet: each entry is
  the response and the clock of one call, and the result lists the waits in call order.
\<close>

fun consecutive_waits ::
    "(response \<times> int) list \<Rightarrow> RateLimitHandler \<Rightarrow> int option list \<times> RateLimitHandler" where
  "consecutive_waits [] s = ([], s)"
| "consecutive_waits ((r, now) # calls) s =
     (let (w, s1) = handleRateLimitResponse_wait r now s;
          (ws, s2) = consecutive_waits calls s1
      in (w # ws, s2))"

text \<open>
  Calls awaited one after the other: each call's timer fires, and the call resumes, before
  the next call starts.
\<close>

fun awaited_waits ::
    "(response \<times> int) list \<Rightarrow> RateLimitHandler \<Rightarrow> int option list \<times> RateLimitHandler" where
  "awaited_waits [] s = ([], s)"
| "awaited_waits ((r, now) # calls) s =
     (let (w, s1) = handleRateLimitResponse_wait r now s;
          (ws, s2) = awaited_waits calls (handleRateLimitResponse_resume s1)
      in (w # ws, s2))"

section \<open>Session pool (class ClaudeSessionPool)\<close>

text \<open>
  \<open>sessions\<close> is a JavaScript \<open>Map\<close>, kept as an association list in insertion order;
  \<open>availableSessions\<close> is an array used through \<open>push\<close> and \<open>pop\<close>, so its last element
  is the one pushed last; \<open>busySessions\<close> is a \<open>Set\<close>, kept as the list of its members in
  insertion order. Browser contexts are opaque values of type \<open>'c\<close>. The queue that
  bounds how many task bodies run at once belongs to an external package and is not part
  of the model.
\<close>

record 'c ClaudeSessionPool =
  sessions :: "(string \<times> 'c) list"
  availableSessions :: "string list"
  busySessions :: "string list"
  maxSessions :: nat
  maxConcurrency :: nat

definition newClaudeSessionPool :: "nat \<Rightarrow> nat \<Rightarrow> 'c ClaudeSessionPool" where
  "newClaudeSessionPool n c =
     \<lparr>sessions = [], availableSessions = [], busySessions = [], maxSessions = n,
      maxConcurrency = c\<rparr>"

text \<open>\<open>Set.prototype.add\<close> and \<open>Set.prototype.delete\<close> on the list of members.\<close>

definition set_add :: "'a \<Rightarrow> 'a list \<Rightarrow> 'a list" where
  "set_add x xs = (if x \<in> set xs then xs else xs @ [x])"

definition set_delete :: "'a \<Rightarrow> 'a list \<Rightarrow> 'a list" where
  "set_delete x xs = removeAll x xs"

text \<open>
  The decimal text of a loop index, as the template literal \<open>`session-${i}`\<close> prints it:
  the digits of the quotient by ten, if any, and then the last digit.
\<close>

definition digit_char :: "nat \<Rightarrow> char" where
  "digit_char d = char_of (of_char CHR ''0'' + d :: nat)"

fun decimal :: "nat \<Rightarrow> string" where
  "decimal i =
     (let q = i div 10; last_digit = digit_char (i mod 10)
      in if q = 0 then [last_digit] else decimal q @ [last_digit])"

declare decimal.simps [simp del]

text \<open>
  \<open>initialize\<close> runs its loop body for \<open>i = 0, \<dots>, maxSessions - 1\<close>; the context the
  browser creates in round \<open>i\<close> is \<open>newContext i\<close>.
\<close>

definition initialize_body :: "(nat \<Rightarrow> 'c) \<Rightarrow> 'c ClaudeSessionPool \<Rightarrow> nat \<Rightarrow> 'c ClaudeSessionPool" where
  "initialize_body newContext p i =
     (let context = newContext i;
          sessionId = ''session-'' @ decimal i
      in p\<lparr>sessions := AList.update sessionId context (sessions p),
            availableSessions := availableSessions p @ [sessionId]\<rparr>)"

definition initialize :: "(nat \<Rightarrow> 'c) \<Rightarrow> 'c ClaudeSessionPool \<Rightarrow> 'c ClaudeSessionPool" where
  "initialize newContext p = foldl (initialize_body newContext) p [0..<maxSessions p]"

text \<open>
  \<open>acquireSession\<close> polls while the array is empty. Between two polls only other tasks
  can change the pool; taken on its own the loop sees the same pool again, so on an empty
  array it never returns, which is the value \<open>None\<close>. Otherwise it pops the last
  identity, marks it busy and returns it with \<open>sessions.get(sessionId)\<close>, which is
  \<open>undefined\<close> (\<open>None\<close>) for an identity the map does not hold.
\<close>

partial_function (option) acquireSession ::
    "'c ClaudeSessionPool \<Rightarrow> ((string \<times> 'c option) \<times> 'c ClaudeSessionPool) option" where
  "acquireSession p =
     (if availableSessions p = [] then acquireSession p
      else
        (let sessionId = last (availableSessions p);
             p1 = p\<lparr>availableSessions := butlast (availableSessions p),
                     busySessions := set_add sessionId (busySessions p)\<rparr>
         in Some ((sessionId, map_of (sessions p1) sessionId), p1)))"

declare acquireSession.simps [code]

text \<open>
  \<open>releaseSession\<close> deletes the identity from the busy set and pushes it. The
  \<open>session-available\<close> event it emits has no listener in the repository.
\<close>

definition releaseSession :: "string \<Rightarrow> 'c ClaudeSessionPool \<Rightarrow> 'c ClaudeSessionPool" where
  "releaseSession sessionId p =
     p\<lparr>busySessions := set_delete sessionId (busySessions p),
       availableSessions := availableSessions p @ [sessionId]\<rparr>"

text \<open>
  \<open>executeWithSession\<close>: acquire, run the task inside \<open>try\<close>, release inside \<open>finally\<close>.
  A task body receives the context; while it runs the pool may change (through the body
  itself or through other tasks), so a body is a function of the context and the pool that
  settles with \<open>Inr\<close> of its value or \<open>Inl\<close> of the error it throws, and leaves a pool.
  The result is what the returned promise settles with, and the pool at that moment; it is
  \<open>None\<close> when the acquisition never returns.
\<close>

definition executeWithSession ::
    "('c option \<Rightarrow> 'c ClaudeSessionPool \<Rightarrow> ('e + 'r) \<times> 'c ClaudeSessionPool) \<Rightarrow>
     'c ClaudeSessionPool \<Rightarrow> (('e + 'r) \<times> 'c ClaudeSessionPool) option" where
  "executeWithSession task p =
     (case acquireSession p of
        None \<Rightarrow> None
      | Some ((sessionId, context), p1) \<Rightarrow>
          (let (result, p2) = task context p1
           in Some (result, releaseSession sessionId p2)))"

text \<open>
  \<open>closeAll\<close> closes every context of the map in insertion order (each \<open>close\<close> is taken
  to succeed) and empties the map, the array and the set. The first component lists the
  contexts closed.
\<close>

definition closeAll :: "'c ClaudeSessionPool \<Rightarrow> 'c list \<times> 'c ClaudeSessionPool" where
  "closeAll p =
     (map snd (sessions p),
      p\<lparr>sessions := [], availableSessions := [], busySessions := []\<rparr>)"

text \<open>
  A sequence of calls on one pool, and the identities the acquisitions return; the
  sequence stops at an acquisition that never returns (marked \<open>None\<close>).
\<close>

datatype pool_call = Acquire | Release string

fun pool_calls :: "pool_call list \<Rightarrow> 'c ClaudeSessionPool \<Rightarrow> string option list \<times> 'c ClaudeSessionPool" where
  "pool_calls [] p = ([], p)"
| "pool_calls (Acquire # cs) p =
     (case acquireSession p of
        None \<Rightarrow> ([None], p)
      | Some ((sessionId, context), p1) \<Rightarrow>
          (let (out, p2) = pool_calls cs p1 in (Some sessionId # out, p2)))"
| "pool_calls (Release sessionId # cs) p = pool_calls cs (releaseSession sessionId p)"

text \<open>
  Conservation for a pool of \<open>n\<close> handles: no identity occurs twice among the available
  and the busy ones, and together they are \<open>n\<close>.
\<close>

definition pool_conserved :: "nat \<Rightarrow> 'c ClaudeSessionPool \<Rightarrow> bool" where
  "pool_conserved n p =
     (distinct (availableSessions p @ busySessions p) \<and>
      length (availableSessions p @ busySessions p) = n)"

section \<open>Stream handler (class CodeStreamHandler)\<close>

text \<open>
  The handler stores one socket in \<open>ws\<close> (\<open>None\<close> before the first \<open>connect\<close>). Of a
  socket the model keeps the \<open>readyState\<close>, which \<open>send\<close> reads, and the session
  identity and token that \<open>connect\<close> built it from: the handlers registered on the socket
  pass exactly these to \<open>reconnect\<close>. Messages are opaque values of type \<open>'m\<close>, and
  \<open>JSON.stringify\<close> is taken to succeed on each of them.
\<close>

datatype readyState = CONNECTING | OPEN | CLOSING | CLOSED

record WebSocket =
  readyState :: readyState
  wsSessionId :: string
  wsToken :: string

text \<open>
  What the handler does to the outside: constructing a socket, \<open>ws.send\<close>, \<open>ws.close\<close>,
  \<open>setTimeout\<close> with a delay in milliseconds, and \<open>console.error\<close> with its first
  argument. Lines printed with \<open>console.log\<close> are left out.
\<close>

datatype 'm effect =
    NewWebSocket string string
  | WsSend 'm
  | WsClose
  | SetTimeout nat
  | ConsoleError string

text \<open>
  \<open>reconnect\<close> is asynchronous: it suspends on its timer and calls \<open>connect\<close> when the
  timer fires. \<open>pendingReconnects\<close> holds the arguments of the suspended calls, oldest
  first; it is not a field of the class.
\<close>

record 'm CodeStreamHandler =
  ws :: "WebSocket option"
  messageBuffer :: "'m list"
  reconnectAttempts :: nat
  pendingReconnects :: "(string \<times> string) list"


definition connect :: "string \<Rightarrow> string \<Rightarrow> 'm CodeStreamHandler \<Rightarrow> 'm effect list \<times> 'm CodeStreamHandler" where
  "connect sessionId token s =
     ([NewWebSocket sessionId token],
      s\<lparr>ws := Some \<lparr>readyState = CONNECTING, wsSessionId = sessionId, wsToken = token\<rparr>\<rparr>)"

text \<open>
  The first part of \<open>reconnect\<close>, up to the timer: at five attempts it only logs;
  otherwise it increments the counter and computes the delay from the incremented value.
\<close>

definition reconnect :: "string \<Rightarrow> string \<Rightarrow> 'm CodeStreamHandler \<Rightarrow> 'm effect list \<times> 'm CodeStreamHandler" where
  "reconnect sessionId token s =
     (if reconnectAttempts s \<ge> 5
      then ([ConsoleError ''Max reconnection attempts reached''], s)
      else
        (let s1 = s\<lparr>reconnectAttempts := reconnectAttempts s + 1\<rparr>;
             delay = min (1000 * 2 ^ reconnectAttempts s1) 30000
         in ([SetTimeout delay],
             s1\<lparr>pendingReconnects := pendingReconnects s1 @ [(sessionId, token)]\<rparr>)))"

text \<open>The second part: the oldest suspended call resumes and connects.\<close>

definition reconnect_resume :: "'m CodeStreamHandler \<Rightarrow> 'm effect list \<times> 'm CodeStreamHandler" where
  "reconnect_resume s =
     (case pendingReconnects s of
        [] \<Rightarrow> ([], s)
      | (sessionId, token) # rest \<Rightarrow> connect sessionId token (s\<lparr>pendingReconnects := rest\<rparr>))"

text \<open>
  \<open>flushMessageBuffer\<close>: while the buffer is not empty, shift its first message and send
  it through \<open>this.ws?.send\<close>, which does nothing when there is no socket.
\<close>

function flushMessageBuffer :: "'m CodeStreamHandler \<Rightarrow> 'm effect list \<times> 'm CodeStreamHandler" where
  "flushMessageBuffer s =
     (case messageBuffer s of
        [] \<Rightarrow> ([], s)
      | message # rest \<Rightarrow>
          (let s1 = s\<lparr>messageBuffer := rest\<rparr>;
               sent = (case ws s1 of None \<Rightarrow> [] | Some w \<Rightarrow> [WsSend message]);
               (es, s2) = flushMessageBuffer s1
           in (sent @ es, s2)))"
  by pat_completeness auto
termination
  by (relation "measure (\<lambda>s. length (messageBuffer s))") auto

declare flushMessageBuffer.simps [simp del]

text \<open>\<open>this.ws?.readyState === WebSocket.OPEN\<close>, the test \<open>send\<close> makes.\<close>

definition is_open :: "'m CodeStreamHandler \<Rightarrow> bool" where
  "is_open s = (case ws s of None \<Rightarrow> False | Some w \<Rightarrow> readyState w = OPEN)"

definition send :: "'m \<Rightarrow> 'm CodeStreamHandler \<Rightarrow> 'm effect list \<times> 'm CodeStreamHandler" where
  "send message s =
     (if is_open s then ([WsSend message], s)
      else ([], s\<lparr>messageBuffer := messageBuffer s @ [message]\<rparr>))"

text \<open>
  The state of the stored socket changes with what the transport does; the handler itself
  never assigns it.
\<close>

definition set_readyState :: "readyState \<Rightarrow> 'm CodeStreamHandler \<Rightarrow> 'm CodeStreamHandler" where
  "set_readyState r s =
     (case ws s of None \<Rightarrow> s | Some w \<Rightarrow> s\<lparr>ws := Some (w\<lparr>readyState := r\<rparr>)\<rparr>)"

text \<open>
  \<open>close\<close> is \<open>this.ws?.close()\<close> and nothing else. A socket that is asked to close and is
  not closed yet is closing from then on.
\<close>

definition close :: "'m CodeStreamHandler \<Rightarrow> 'm effect list \<times> 'm CodeStreamHandler" where
  "close s =
     (case ws s of
        None \<Rightarrow> ([], s)
      | Some w \<Rightarrow>
          ([WsClose], set_readyState (if readyState w = CLOSED then CLOSED else CLOSING) s))"

text \<open>The handlers that \<open>connect\<close> registers for \<open>open\<close>, \<open>error\<close> and \<open>close\<close>.\<close>

definition on_open :: "'m CodeStreamHandler \<Rightarrow> 'm effect list \<times> 'm CodeStreamHandler" where
  "on_open s = flushMessageBuffer (s\<lparr>reconnectAttempts := 0\<rparr>)"

definition on_error :: "string \<Rightarrow> string \<Rightarrow> 'm CodeStreamHandler \<Rightarrow> 'm effect list \<times> 'm CodeStreamHandler" where
  "on_error sessionId token s =
     (let (es, s1) = reconnect sessionId token s
      in (ConsoleError ''WebSocket error:'' # es, s1))"

definition on_close :: "string \<Rightarrow> string \<Rightarrow> 'm CodeStreamHandler \<Rightarrow> 'm effect list \<times> 'm CodeStreamHandler" where
  "on_close sessionId token s = reconnect sessionId token s"

text \<open>
  What can happen to a handler: the three calls of its interface, the three events of the
  stored socket (the socket is open when \<open>open\<close> is delivered, closing at \<open>error\<close>, closed
  at \<open>close\<close>), and the firing of the oldest reconnect timer. Events of sockets that a
  later \<open>connect\<close> has replaced are not followed.
\<close>

datatype 'm stream_input =
    Connect string string
  | Send 'm
  | CloseCall
  | Open
  | Error
  | Close
  | TimerFired

fun step :: "'m stream_input \<Rightarrow> 'm CodeStreamHandler \<Rightarrow> 'm effect list \<times> 'm CodeStreamHandler" where
  "step (Connect sessionId token) s = connect sessionId token s"
| "step (Send message) s = send message s"
| "step CloseCall s = close s"
| "step Open s =
     (case ws s of None \<Rightarrow> ([], s) | Some w \<Rightarrow> on_open (set_readyState OPEN s))"
| "step Error s =
     (case ws s of
        None \<Rightarrow> ([], s)
      | Some w \<Rightarrow> on_error (wsSessionId w) (wsToken w) (set_readyState CLOSING s))"
| "step Close s =
     (case ws s of
        None \<Rightarrow> ([], s)
      | Some w \<Rightarrow> on_close (wsSessionId w) (wsToken w) (set_readyState CLOSED s))"
| "step TimerFired s = reconnect_resume s"

fun run :: "'m stream_input list \<Rightarrow> 'm CodeStreamHandler \<Rightarrow> 'm effect list \<times> 'm CodeStreamHandler" where
  "run [] s = ([], s)"
| "run (i # is) s =
     (let (es, s1) = step i s;
          (es', s2) = run is s1
      in (es @ es', s2))"



section \<open>Properties of the rate limit handler\<close>

lemma backoff_ok_new: "backoff_ok newRateLimitHandler"
  by (simp add: backoff_ok_def newRateLimitHandler_def)

lemma backoff_ok_wait: "backoff_ok s \<Longrightarrow> backoff_ok (snd (handleRateLimitResponse_wait r now s))"
  by (auto simp: backoff_ok_def handleRateLimitResponse_wait_def Let_def)

lemma backoff_ok_resume: "backoff_ok (handleRateLimitResponse_resume s)"
  by (simp add: backoff_ok_def handleRateLimitResponse_resume_def)

lemma backoff_ok_shouldThrottle: "backoff_ok s \<Longrightarrow> backoff_ok (snd (shouldThrottle now k s))"
  by (simp add: backoff_ok_def shouldThrottle_def Let_def)

lemma backoff_ok_recordRequest: "backoff_ok s \<Longrightarrow> backoff_ok (recordRequest k s)"
  by (simp add: backoff_ok_def recordRequest_def Let_def)

lemma recordRequest_funpow_count:
  "countOf ((recordRequest k ^^ n) s) k = countOf s k + n"
  by (induction n) (simp_all add: recordRequest_def countOf_def Let_def)

lemma recordRequest_funpow_resetTimes:
  "resetTimes ((recordRequest k ^^ n) s) = resetTimes s"
  by (induction n) (simp_all add: recordRequest_def Let_def)

lemma getRateLimit_pos: "0 < getRateLimit k"
  by (simp add: getRateLimit_def)

lemmas parseInt_eval = parseInt_def isWhiteSpace_def digitValue_def mathInt_def

text \<open>
  C1, as the code has it. Three calls started with no timer firing in between use the
  multipliers \<open>m\<close>, \<open>min (2 m) 8\<close> and \<open>min (4 m) 8\<close> on their own base waits (from a
  handler at rest: 1, 2, 4), and leave the multiplier at the ceiling 8; calls with the same
  base wait therefore double their wait until the ceiling. The completion of a wait stores
  the multiplier 1 whatever the multiplier was, so any call started after a completed wait
  waits exactly its own base wait; calls awaited one after the other never grow.
\<close>

theorem backoff_multiplier_growth:
  assumes ok: "backoff_ok s"
    and b1: "waitTimeOf r1 n1 = Some b1"
    and b2: "waitTimeOf r2 n2 = Some b2"
    and b3: "waitTimeOf r3 n3 = Some b3"
    and b: "waitTimeOf r n = Some b"
  shows "fst (consecutive_waits [(r1, n1), (r2, n2), (r3, n3)] s) =
           [Some (b1 * backoffMultiplier s),
            Some (b2 * min (2 * backoffMultiplier s) 8),
            Some (b3 * min (4 * backoffMultiplier s) 8)] \<and>
         backoffMultiplier (snd (consecutive_waits [(r1, n1), (r2, n2), (r3, n3)] s)) = 8 \<and>
         backoffMultiplier (handleRateLimitResponse_resume s') = 1 \<and>
         fst (handleRateLimitResponse_wait r n (handleRateLimitResponse_resume s')) = Some b \<and>
         fst (awaited_waits [(r1, n1), (r2, n2), (r3, n3)] s) =
           [Some (b1 * backoffMultiplier s), Some b2, Some b3]"
  using ok b1 b2 b3 b
  by (auto simp: backoff_ok_def handleRateLimitResponse_wait_def
      handleRateLimitResponse_resume_def Let_def)

text \<open>
  The theorem at a new handler and three responses that each carry \<open>Retry-After: 60\<close>:
  started together they wait one, two and four minutes; a wait that completes at
  multiplier 2 is followed by a wait of the default minute; awaited one after the other
  they wait one minute each.
\<close>

theorem backoff_multiplier_growth_witness:
  "fst (consecutive_waits
         [(\<lparr>retryAfter = Some ''60'', xRateLimitReset = None\<rparr>, 1000),
          (\<lparr>retryAfter = Some ''60'', xRateLimitReset = None\<rparr>, 2000),
          (\<lparr>retryAfter = Some ''60'', xRateLimitReset = None\<rparr>, 3000)] newRateLimitHandler) =
     [Some 60000, Some 120000, Some 240000] \<and>
   backoffMultiplier (snd (handleRateLimitResponse_wait
      \<lparr>retryAfter = Some ''60'', xRateLimitReset = None\<rparr> 1000 newRateLimitHandler)) = 2 \<and>
   fst (handleRateLimitResponse_wait \<lparr>retryAfter = None, xRateLimitReset = None\<rparr> 5000
         (handleRateLimitResponse_resume (snd (handleRateLimitResponse_wait
            \<lparr>retryAfter = Some ''60'', xRateLimitReset = None\<rparr> 1000 newRateLimitHandler)))) =
     Some 60000 \<and>
   fst (awaited_waits
         [(\<lparr>retryAfter = Some ''60'', xRateLimitReset = None\<rparr>, 1000),
          (\<lparr>retryAfter = Some ''60'', xRateLimitReset = None\<rparr>, 2000),
          (\<lparr>retryAfter = Some ''60'', xRateLimitReset = None\<rparr>, 3000)] newRateLimitHandler) =
     [Some 60000, Some 60000, Some 60000]"
proof -
  let ?r = "\<lparr>retryAfter = Some ''60'', xRateLimitReset = None\<rparr>"
  let ?d = "\<lparr>retryAfter = None, xRateLimitReset = None\<rparr>"
  let ?s' = "snd (handleRateLimitResponse_wait ?r 1000 newRateLimitHandler)"
  have p: "parseInt ''60'' = Some 60" by (simp add: parseInt_eval)
  have w: "waitTimeOf ?r n = Some 60000" for n
    by (simp add: waitTimeOf_def truthy_def p)
  have d: "waitTimeOf ?d 5000 = Some 60000"
    by (simp add: waitTimeOf_def truthy_def)
  have m: "backoffMultiplier newRateLimitHandler = 1"
    by (simp add: newRateLimitHandler_def)
  have m2: "backoffMultiplier ?s' = 2"
    by (simp add: handleRateLimitResponse_wait_def newRateLimitHandler_def)
  from backoff_multiplier_growth[OF backoff_ok_new w[of 1000] w[of 2000] w[of 3000] d,
      where s' = ?s'] m2
  show ?thesis by (simp add: m)
qed

text \<open>
  Doubling of the waits themselves fails: one response with a reset timestamp, handled three
  times while the clock advances and before any wait has completed, gives waits that shrink.
\<close>

theorem backoff_wait_not_doubled:
  "fst (consecutive_waits
         [(\<lparr>retryAfter = None, xRateLimitReset = Some ''70000''\<rparr>, 10000),
          (\<lparr>retryAfter = None, xRateLimitReset = Some ''70000''\<rparr>, 45000),
          (\<lparr>retryAfter = None, xRateLimitReset = Some ''70000''\<rparr>, 60000)] newRateLimitHandler) =
     [Some 60000, Some 50000, Some 40000] \<and>
   \<not> (2 * 60000 \<le> (50000::int)) \<and> \<not> (2 * 50000 \<le> (40000::int))"
proof -
  have p: "parseInt ''70000'' = Some 70000" by (simp add: parseInt_eval)
  have w: "waitTimeOf \<lparr>retryAfter = None, xRateLimitReset = Some ''70000''\<rparr> n = Some (70000 - n)"
    for n by (simp add: waitTimeOf_def truthy_def p)
  show ?thesis
    by (simp add: handleRateLimitResponse_wait_def newRateLimitHandler_def w)
qed

text \<open>
  C2, as the code has it. Let a call of \<open>shouldThrottle\<close> at time \<open>t0\<close> open a window for
  key \<open>K\<close> (the stored reset time lies before \<open>t0\<close>, as for a new handler and a positive
  clock). After \<open>getRateLimit K\<close> calls of \<open>recordRequest\<close>, \<open>shouldThrottle\<close> answers true at
  every time up to \<open>t0 + 60000\<close> and false at every later time, with no reset call in
  between. \<open>recordRequest\<close> itself never looks at the window: on every handler it keeps the
  reset times and adds one to the count.
\<close>

theorem rate_window_reset:
  assumes fresh: "resetTimeOf s K < t0"
    and inside: "t \<le> t0 + 60000"
    and after: "t0 + 60000 < t'"
  shows "fst (shouldThrottle t K
               ((recordRequest K ^^ getRateLimit K) (snd (shouldThrottle t0 K s)))) \<and>
         \<not> fst (shouldThrottle t' K
               ((recordRequest K ^^ getRateLimit K) (snd (shouldThrottle t0 K s)))) \<and>
         resetTimes (recordRequest K s') = resetTimes s' \<and>
         countOf (recordRequest K s') K = countOf s' K + 1"
proof -
  let ?s1 = "snd (shouldThrottle t0 K s)"
  let ?s2 = "(recordRequest K ^^ getRateLimit K) ?s1"
  have c1: "countOf ?s1 K = 0" and r1: "resetTimeOf ?s1 K = t0 + 60000"
    using fresh by (simp_all add: shouldThrottle_def Let_def countOf_def resetTimeOf_def)
  have c2: "countOf ?s2 K = getRateLimit K"
    by (simp add: recordRequest_funpow_count c1)
  have r2: "resetTimeOf ?s2 K = t0 + 60000"
    using r1 by (simp add: resetTimeOf_def recordRequest_funpow_resetTimes)
  have A: "fst (shouldThrottle t K ?s2)"
    using inside c2 r2 by (simp add: shouldThrottle_def Let_def)
  have B: "\<not> fst (shouldThrottle t' K ?s2)"
    using after r2 getRateLimit_pos[of K] by (simp add: shouldThrottle_def Let_def countOf_def)
  have C: "resetTimes (recordRequest K s') = resetTimes s'"
    by (simp add: recordRequest_def Let_def)
  have D: "countOf (recordRequest K s') K = countOf s' K + 1"
    by (simp add: recordRequest_def Let_def countOf_def)
  from A B C D show ?thesis by blast
qed

text \<open>
  The theorem at a new handler and the key \<open>/compile\<close> (limit 5), with the window opened at
  time 1000: throttled at 30000, not throttled at 61001.
\<close>

theorem rate_window_reset_witness:
  "resetTimeOf newRateLimitHandler ''/compile'' < 1000 \<and>
   fst (shouldThrottle 30000 ''/compile''
         ((recordRequest ''/compile'' ^^ 5)
            (snd (shouldThrottle 1000 ''/compile'' newRateLimitHandler)))) \<and>
   \<not> fst (shouldThrottle 61001 ''/compile''
         ((recordRequest ''/compile'' ^^ 5)
            (snd (shouldThrottle 1000 ''/compile'' newRateLimitHandler))))"
proof -
  have h1: "resetTimeOf newRateLimitHandler ''/compile'' < 1000"
    by (simp add: resetTimeOf_def newRateLimitHandler_def)
  have h2: "(30000::int) \<le> 1000 + 60000" by simp
  have h3: "(1000::int) + 60000 < 61001" by simp
  have L: "getRateLimit ''/compile'' = 5" by (simp add: getRateLimit_def)
  from rate_window_reset[OF h1 h2 h3] h1 show ?thesis by (simp add: L)
qed

text \<open>
  The stated form fails twice. On a new handler, five recorded requests for \<open>/compile\<close> do
  not make \<open>shouldThrottle\<close> answer true: its first call opens the window and clears the
  count. And \<open>recordRequest\<close> makes no expiry check: after a window opened at 1000 and five
  requests, a sixth request long after the window has ended stores 6, where a check at
  time 70000 followed by the increment would store 1.
\<close>

theorem record_request_no_expiry_check:
  "\<not> fst (shouldThrottle 1000 ''/compile''
          ((recordRequest ''/compile'' ^^ getRateLimit ''/compile'') newRateLimitHandler)) \<and>
   countOf (recordRequest ''/compile'' ((recordRequest ''/compile'' ^^ 5)
      (snd (shouldThrottle 1000 ''/compile'' newRateLimitHandler)))) ''/compile'' = 6 \<and>
   countOf (recordRequest_spec 70000 ''/compile'' ((recordRequest ''/compile'' ^^ 5)
      (snd (shouldThrottle 1000 ''/compile'' newRateLimitHandler)))) ''/compile'' = 1"
  by code_simp

text \<open>
  C10. With no retry-after header present and a reset timestamp that parses to a time
  before the clock, the wait is the timestamp minus the clock, a negative number, and the
  wait scaled by any multiplier the handler can hold is negative as well: nothing clamps
  it at zero.
\<close>

theorem reset_hint_in_past_negative_wait:
  assumes "truthy (retryAfter r) = None"
    and "truthy (xRateLimitReset r) = Some x"
    and "parseInt x = Some t"
    and "t < now"
    and "backoff_ok s"
  shows "waitTimeOf r now = Some (t - now) \<and>
         fst (handleRateLimitResponse_wait r now s) = Some ((t - now) * backoffMultiplier s) \<and>
         (t - now) * backoffMultiplier s < 0"
proof -
  have w: "waitTimeOf r now = Some (t - now)"
    using assms(1-3) by (simp add: waitTimeOf_def)
  have m: "0 < backoffMultiplier s"
    using assms(5) by (auto simp: backoff_ok_def)
  have "t - now < 0" using assms(4) by simp
  then have neg: "(t - now) * backoffMultiplier s < 0"
    using m by (simp add: mult_neg_pos)
  show ?thesis
    using w neg by (simp add: handleRateLimitResponse_wait_def Let_def)
qed

text \<open>The theorem at a reset timestamp of 1000 read at time 5000 by a new handler.\<close>

theorem reset_hint_in_past_negative_wait_witness:
  "fst (handleRateLimitResponse_wait \<lparr>retryAfter = None, xRateLimitReset = Some ''1000''\<rparr> 5000
          newRateLimitHandler) = Some (- 4000)"
proof -
  let ?r = "\<lparr>retryAfter = None, xRateLimitReset = Some ''1000''\<rparr>"
  have h1: "truthy (retryAfter ?r) = None" by (simp add: truthy_def)
  have h2: "truthy (xRateLimitReset ?r) = Some ''1000''" by (simp add: truthy_def)
  have h3: "parseInt ''1000'' = Some 1000" by (simp add: parseInt_eval)
  have h4: "(1000::int) < 5000" by simp
  from reset_hint_in_past_negative_wait[OF h1 h2 h3 h4 backoff_ok_new] show ?thesis
    by (simp add: newRateLimitHandler_def)
qed

section \<open>Properties of the session pool\<close>

lemma acquire_Some_nonempty:
  assumes "acquireSession p = Some y"
  shows "availableSessions p \<noteq> []"
  by (rule acquireSession.raw_induct[where P = "\<lambda>p y. availableSessions p \<noteq> []", OF _ assms])
     (auto split: if_splits)

lemma acquire_blocks: "availableSessions p = [] \<Longrightarrow> acquireSession p = None"
  using acquire_Some_nonempty[of p] by (cases "acquireSession p") auto

lemma acquire_nonempty:
  "availableSessions p \<noteq> [] \<Longrightarrow>
   acquireSession p =
     Some ((last (availableSessions p), map_of (sessions p) (last (availableSessions p))),
           p\<lparr>availableSessions := butlast (availableSessions p),
             busySessions := set_add (last (availableSessions p)) (busySessions p)\<rparr>)"
  by (subst acquireSession.simps) (simp add: Let_def)

lemma acquire_after_release:
  "acquireSession (releaseSession sid p) =
     Some ((sid, map_of (sessions p) sid),
           p\<lparr>busySessions := set_add sid (set_delete sid (busySessions p))\<rparr>)"
  by (subst acquireSession.simps) (simp add: releaseSession_def Let_def)

lemma set_delete_length:
  "distinct xs \<Longrightarrow> x \<in> set xs \<Longrightarrow> Suc (length (set_delete x xs)) = length xs"
  unfolding set_delete_def
  by (induction xs) (auto simp: removeAll_id)

text \<open>
  C5, as the code has it. In a pool that conserves its \<open>n\<close> identities, releasing an
  identity \<open>a\<close> that is in use keeps conservation. Releasing an identity \<open>b\<close> that is not
  in use is not guarded: the busy set stays as it is and \<open>b\<close> is pushed all the same, so
  the collection grows to \<open>n + 1\<close> entries and conservation is lost.
\<close>

theorem release_conservation:
  assumes "pool_conserved n p"
  shows "(a \<in> set (busySessions p) \<longrightarrow> pool_conserved n (releaseSession a p)) \<and>
         (b \<notin> set (busySessions p) \<longrightarrow>
            availableSessions (releaseSession b p) = availableSessions p @ [b] \<and>
            busySessions (releaseSession b p) = busySessions p \<and>
            \<not> pool_conserved n (releaseSession b p))"
proof -
  from assms have d: "distinct (availableSessions p)" "distinct (busySessions p)"
    "set (availableSessions p) \<inter> set (busySessions p) = {}"
    and len: "length (availableSessions p) + length (busySessions p) = n"
    by (auto simp: pool_conserved_def)
  have A: "pool_conserved n (releaseSession a p)" if a: "a \<in> set (busySessions p)"
    using d len a set_delete_length[OF d(2) a]
    by (auto simp: pool_conserved_def releaseSession_def set_delete_def distinct_removeAll)
  have B: "busySessions (releaseSession b p) = busySessions p"
    if b: "b \<notin> set (busySessions p)"
    using b by (simp add: releaseSession_def set_delete_def removeAll_id)
  have C: "\<not> pool_conserved n (releaseSession b p)" if b: "b \<notin> set (busySessions p)"
    using len B[OF b] by (simp add: pool_conserved_def releaseSession_def)
  have D: "availableSessions (releaseSession b p) = availableSessions p @ [b]"
    by (simp add: releaseSession_def)
  from A B C D show ?thesis by blast
qed

text \<open>
  The theorem at a pool of two after one acquisition (\<open>session-1\<close> is in use,
  \<open>session-0\<close> is available).
\<close>

theorem release_conservation_witness:
  "pool_conserved 2
     (snd (pool_calls [Acquire] (initialize (\<lambda>i. i::nat) (newClaudeSessionPool 2 2)))) \<and>
   pool_conserved 2 (releaseSession ''session-1''
     (snd (pool_calls [Acquire] (initialize (\<lambda>i. i::nat) (newClaudeSessionPool 2 2))))) \<and>
   \<not> pool_conserved 2 (releaseSession ''session-0''
     (snd (pool_calls [Acquire] (initialize (\<lambda>i. i::nat) (newClaudeSessionPool 2 2)))))"
proof -
  let ?p = "snd (pool_calls [Acquire] (initialize (\<lambda>i. i::nat) (newClaudeSessionPool 2 2)))"
  have h1: "pool_conserved 2 ?p" by code_simp
  have h2: "''session-1'' \<in> set (busySessions ?p)" by code_simp
  have h3: "''session-0'' \<notin> set (busySessions ?p)" by code_simp
  from release_conservation[OF h1, of "''session-1''" "''session-0''"] h1 h2 h3
  show ?thesis by blast
qed

text \<open>
  The stated form fails: in a new pool of two, releasing \<open>session-0\<close>, which nobody
  holds, breaks conservation, and the next three acquisitions all return; the first and
  the third return \<open>session-0\<close>, with no release in between.
\<close>

theorem release_unheld_duplicates:
  "pool_conserved 2 (initialize (\<lambda>i. i::nat) (newClaudeSessionPool 2 2)) \<and>
   \<not> pool_conserved 2
       (releaseSession ''session-0'' (initialize (\<lambda>i. i::nat) (newClaudeSessionPool 2 2))) \<and>
   fst (pool_calls [Release ''session-0'', Acquire, Acquire, Acquire]
         (initialize (\<lambda>i. i::nat) (newClaudeSessionPool 2 2))) =
     [Some ''session-0'', Some ''session-1'', Some ''session-0'']"
  by code_simp

text \<open>
  C6, as the code has it. \<open>closeAll\<close> empties the map, the array and the set. An
  acquisition after it raises nothing: on the empty array it polls without end, and once
  some identity is released into the closed pool it returns that identity with an
  undefined context.
\<close>

theorem closeAll_then_acquire_blocks:
  "availableSessions (snd (closeAll p)) = [] \<and> sessions (snd (closeAll p)) = [] \<and>
   busySessions (snd (closeAll p)) = [] \<and>
   acquireSession (snd (closeAll p)) = None \<and>
   map_option fst (acquireSession (releaseSession sid (snd (closeAll p)))) = Some (sid, None)"
proof -
  have e: "availableSessions (snd (closeAll p)) = []" by (simp add: closeAll_def)
  have n: "acquireSession (snd (closeAll p)) = None" by (rule acquire_blocks[OF e])
  show ?thesis using n by (simp add: acquire_after_release) (simp add: closeAll_def)
qed

text \<open>
  The stated form fails: after \<open>closeAll\<close> on a pool of two, an acquisition does not
  return at all, neither with a handle nor with an error.
\<close>

theorem acquire_after_closeAll_never_returns:
  "fst (closeAll (initialize (\<lambda>i. i::nat) (newClaudeSessionPool 2 2))) = [0, 1] \<and>
   acquireSession (snd (closeAll (initialize (\<lambda>i. i::nat) (newClaudeSessionPool 2 2)))) = None"
proof -
  have c: "fst (closeAll (initialize (\<lambda>i. i::nat) (newClaudeSessionPool 2 2))) = [0, 1]"
    by code_simp
  have n: "acquireSession (snd (closeAll (initialize (\<lambda>i. i::nat) (newClaudeSessionPool 2 2)))) = None"
    by (rule acquire_blocks) (simp add: closeAll_def)
  from c n show ?thesis by blast
qed

text \<open>
  C7. When the acquisition returns identity \<open>sid\<close> and the task body settles, with a value
  or with an error, \<open>executeWithSession\<close> settles with that same outcome, and the pool it
  leaves at that moment is the pool the body left with \<open>sid\<close> released: \<open>sid\<close> is not busy,
  it is the last available identity, and the next acquisition returns it.
\<close>

theorem executeWithSession_releases:
  assumes acq: "acquireSession p = Some ((sid, ctx), p1)"
    and body: "task ctx p1 = (result, p2)"
  shows "executeWithSession task p = Some (result, releaseSession sid p2) \<and>
         sid \<notin> set (busySessions (releaseSession sid p2)) \<and>
         last (availableSessions (releaseSession sid p2)) = sid \<and>
         map_option (fst \<circ> fst) (acquireSession (releaseSession sid p2)) = Some sid"
  using acq body
  by (simp add: executeWithSession_def acquire_after_release)
     (simp add: releaseSession_def set_delete_def)

text \<open>
  The theorem at a new pool of two and a body that throws at once: the error comes back
  and the pool is as it was before the call.
\<close>

theorem executeWithSession_releases_witness:
  "executeWithSession (\<lambda>ctx p. (Inl ''boom'' :: string + nat, p))
       (initialize (\<lambda>i. i::nat) (newClaudeSessionPool 2 2)) =
     Some (Inl ''boom'', initialize (\<lambda>i. i::nat) (newClaudeSessionPool 2 2))"
proof -
  let ?p = "initialize (\<lambda>i. i::nat) (newClaudeSessionPool 2 2)"
  let ?p1 = "?p\<lparr>availableSessions := [''session-0''], busySessions := [''session-1'']\<rparr>"
  let ?task = "\<lambda>(ctx::nat option) (p::nat ClaudeSessionPool). (Inl ''boom'' :: string + nat, p)"
  have h1: "acquireSession ?p = Some ((''session-1'', Some 1), ?p1)" by code_simp
  have h2: "?task (Some 1) ?p1 = (Inl ''boom'', ?p1)" by simp
  have h3: "releaseSession ''session-1'' ?p1 = ?p" by code_simp
  from executeWithSession_releases[where task = ?task, OF h1 h2] show ?thesis
    by (simp only: h3)
qed

text \<open>
  C8, as the code has it. The available identities are kept in release order, a release
  appending at the end; an acquisition on a non-empty array takes the last one and leaves
  the others. So an acquisition that follows a release returns the identity just released,
  the most recently released one.
\<close>

theorem acquire_takes_last_released:
  "availableSessions (releaseSession sid p) = availableSessions p @ [sid] \<and>
   (availableSessions p \<noteq> [] \<longrightarrow>
      map_option (fst \<circ> fst) (acquireSession p) = Some (last (availableSessions p)) \<and>
      map_option (availableSessions \<circ> snd) (acquireSession p) =
        Some (butlast (availableSessions p))) \<and>
   map_option (fst \<circ> fst) (acquireSession (releaseSession sid p)) = Some sid \<and>
   map_option (availableSessions \<circ> snd) (acquireSession (releaseSession sid p)) =
     Some (availableSessions p)"
  by (simp add: acquire_after_release acquire_nonempty) (simp add: releaseSession_def)

text \<open>The theorem at a new pool of two, releasing \<open>session-7\<close>.\<close>

theorem acquire_takes_last_released_witness:
  "availableSessions (initialize (\<lambda>i. i::nat) (newClaudeSessionPool 2 2)) \<noteq> [] \<and>
   map_option (fst \<circ> fst) (acquireSession (initialize (\<lambda>i. i::nat) (newClaudeSessionPool 2 2))) =
     Some ''session-1'' \<and>
   map_option (fst \<circ> fst) (acquireSession (releaseSession ''session-7''
     (initialize (\<lambda>i. i::nat) (newClaudeSessionPool 2 2)))) = Some ''session-7''"
proof -
  let ?p = "initialize (\<lambda>i. i::nat) (newClaudeSessionPool 2 2)"
  have a: "availableSessions ?p = [''session-0'', ''session-1'']" by code_simp
  from acquire_takes_last_released[of "''session-7''" ?p] show ?thesis
    by (simp add: a)
qed

text \<open>
  The stated form fails: with both handles of a pool of two taken, \<open>session-1\<close> is
  released first and \<open>session-0\<close> second; the next acquisition returns \<open>session-0\<close>, the
  one released last, and not \<open>session-1\<close>.
\<close>

theorem acquire_not_least_recent:
  "fst (pool_calls [Acquire, Acquire, Release ''session-1'', Release ''session-0'', Acquire]
         (initialize (\<lambda>i. i::nat) (newClaudeSessionPool 2 2))) =
     [Some ''session-1'', Some ''session-0'', Some ''session-0'']"
  by code_simp

section \<open>Properties of the stream handler\<close>

lemma flush_eq:
  "flushMessageBuffer s =
     ((case ws s of None \<Rightarrow> [] | Some w \<Rightarrow> map WsSend (messageBuffer s)),
      s\<lparr>messageBuffer := []\<rparr>)"
proof (induction s rule: flushMessageBuffer.induct)
  case (1 s)
  show ?case
  proof (cases "messageBuffer s")
    case Nil
    then show ?thesis
      by (subst flushMessageBuffer.simps) (simp split: option.splits)
  next
    case (Cons m rest)
    with "1.IH"[OF Cons refl refl] show ?thesis
      by (subst flushMessageBuffer.simps) (simp split: option.splits)
  qed
qed

lemma run_append:
  "run (xs @ ys) s =
     (let (e1, s1) = run xs s; (e2, s2) = run ys s1 in (e1 @ e2, s2))"
  by (induction xs arbitrary: s) (simp_all add: Let_def split: prod.splits)

lemma send_not_open:
  "\<not> is_open s \<Longrightarrow> send m s = ([], s\<lparr>messageBuffer := messageBuffer s @ [m]\<rparr>)"
  by (simp add: send_def)

lemma run_sends:
  "\<not> is_open s \<Longrightarrow> run (map Send ms) s = ([], s\<lparr>messageBuffer := messageBuffer s @ ms\<rparr>)"
proof (induction ms arbitrary: s)
  case Nil
  then show ?case by simp
next
  case (Cons m ms)
  have n: "\<not> is_open (s\<lparr>messageBuffer := messageBuffer s @ [m]\<rparr>)"
    using Cons.prems by (simp add: is_open_def)
  show ?case
    using Cons.IH[OF n] Cons.prems by (simp add: send_not_open)
qed















text \<open>
  C9. Let the handler not be open: no socket stored, or a stored socket whose state is
  not open. Messages sent then cause no effect at all and are appended to the buffer in
  the order sent. When the stored socket opens after that, the whole buffer is written
  through it, oldest message first, the buffer is empty and the reconnect counter is
  zero; the same holds when the handler first connects and that socket opens.
\<close>

theorem stream_buffering:
  assumes "\<not> is_open s"
  shows "run (map Send ms) s = ([], s\<lparr>messageBuffer := messageBuffer s @ ms\<rparr>) \<and>
         (ws s \<noteq> None \<longrightarrow>
            run (map Send ms @ [Open]) s =
              (map WsSend (messageBuffer s @ ms),
               (set_readyState OPEN s)\<lparr>reconnectAttempts := 0, messageBuffer := []\<rparr>)) \<and>
         run (map Send ms @ [Connect sid tok, Open]) s =
           (NewWebSocket sid tok # map WsSend (messageBuffer s @ ms),
            s\<lparr>ws := Some \<lparr>readyState = OPEN, wsSessionId = sid, wsToken = tok\<rparr>,
              reconnectAttempts := 0, messageBuffer := []\<rparr>)"
  using assms
  by (auto simp: run_append run_sends on_open_def flush_eq set_readyState_def connect_def)

text \<open>
  The theorem at a handler that holds one message and has just connected, with three more
  messages sent before the socket opens.
\<close>

theorem stream_buffering_witness:
  "run (map Send [1, 2, 3])
       (\<lparr>ws = Some \<lparr>readyState = CONNECTING, wsSessionId = ''s'', wsToken = ''t''\<rparr>,
         messageBuffer = [0], reconnectAttempts = 4, pendingReconnects = []\<rparr>
        :: nat CodeStreamHandler) =
     ([], \<lparr>ws = Some \<lparr>readyState = CONNECTING, wsSessionId = ''s'', wsToken = ''t''\<rparr>,
           messageBuffer = [0, 1, 2, 3], reconnectAttempts = 4, pendingReconnects = []\<rparr>) \<and>
   run (map Send [1, 2, 3] @ [Open])
       (\<lparr>ws = Some \<lparr>readyState = CONNECTING, wsSessionId = ''s'', wsToken = ''t''\<rparr>,
         messageBuffer = [0], reconnectAttempts = 4, pendingReconnects = []\<rparr>
        :: nat CodeStreamHandler) =
     ([WsSend 0, WsSend 1, WsSend 2, WsSend 3],
      \<lparr>ws = Some \<lparr>readyState = OPEN, wsSessionId = ''s'', wsToken = ''t''\<rparr>,
        messageBuffer = [], reconnectAttempts = 0, pendingReconnects = []\<rparr>)"
proof -
  let ?s = "\<lparr>ws = Some \<lparr>readyState = CONNECTING, wsSessionId = ''s'', wsToken = ''t''\<rparr>,
             messageBuffer = [0], reconnectAttempts = 4, pendingReconnects = []\<rparr>
            :: nat CodeStreamHandler"
  have h: "\<not> is_open ?s" by (simp add: is_open_def)
  have n: "ws ?s \<noteq> None" by simp
  from stream_buffering[OF h, of "[1, 2, 3]"] n show ?thesis
    by (simp add: set_readyState_def)
qed

end
